theory Spec2Isabelle
  imports Complex_Main
begin

section \<open>Numbers and errors\<close>

text \<open>
  The engine computes on Python floats (inside the bar loop, where \<open>iterrows\<close> hands
  out boxed Python floats) and on pandas float64 columns (indicators, drawdown, returns).
  Finite values are modelled as exact reals: rounding is not part of the model. What is
  modelled is the difference that decides control flow: a Python float division by zero
  raises \<open>ZeroDivisionError\<close>, while a pandas column division yields an infinity or
  NaN, and every comparison with NaN is false. Zero has no sign in the model.
\<close>

datatype py_error =
    ZeroDivisionError
  | TypeError
  | IndexError
  | KeyError
  | ValueError string

datatype fl = Fin real | PInf | NInf | NaN

fun fl_neg :: "fl \<Rightarrow> fl" where
  "fl_neg (Fin a) = Fin (- a)"
| "fl_neg PInf = NInf"
| "fl_neg NInf = PInf"
| "fl_neg NaN = NaN"

fun fl_add :: "fl \<Rightarrow> fl \<Rightarrow> fl" where
  "fl_add NaN _ = NaN"
| "fl_add _ NaN = NaN"
| "fl_add (Fin a) (Fin b) = Fin (a + b)"
| "fl_add PInf NInf = NaN"
| "fl_add NInf PInf = NaN"
| "fl_add PInf _ = PInf"
| "fl_add _ PInf = PInf"
| "fl_add NInf _ = NInf"
| "fl_add _ NInf = NInf"

definition fl_sub :: "fl \<Rightarrow> fl \<Rightarrow> fl" where
  "fl_sub a b = fl_add a (fl_neg b)"

fun fl_mul :: "fl \<Rightarrow> fl \<Rightarrow> fl" where
  "fl_mul NaN _ = NaN"
| "fl_mul _ NaN = NaN"
| "fl_mul (Fin a) (Fin b) = Fin (a * b)"
| "fl_mul (Fin a) PInf = (if a = 0 then NaN else if 0 < a then PInf else NInf)"
| "fl_mul (Fin a) NInf = (if a = 0 then NaN else if 0 < a then NInf else PInf)"
| "fl_mul PInf (Fin b) = (if b = 0 then NaN else if 0 < b then PInf else NInf)"
| "fl_mul NInf (Fin b) = (if b = 0 then NaN else if 0 < b then NInf else PInf)"
| "fl_mul PInf PInf = PInf"
| "fl_mul NInf NInf = PInf"
| "fl_mul PInf NInf = NInf"
| "fl_mul NInf PInf = NInf"

fun fl_div :: "fl \<Rightarrow> fl \<Rightarrow> fl" where
  "fl_div NaN _ = NaN"
| "fl_div _ NaN = NaN"
| "fl_div (Fin a) (Fin b) =
     (if b = 0 then (if a = 0 then NaN else if 0 < a then PInf else NInf)
      else Fin (a / b))"
| "fl_div (Fin a) _ = Fin 0"
| "fl_div PInf (Fin b) = (if 0 \<le> b then PInf else NInf)"
| "fl_div NInf (Fin b) = (if 0 \<le> b then NInf else PInf)"
| "fl_div _ _ = NaN"

fun fl_lt :: "fl \<Rightarrow> fl \<Rightarrow> bool" where
  "fl_lt NaN _ = False"
| "fl_lt _ NaN = False"
| "fl_lt (Fin a) (Fin b) = (a < b)"
| "fl_lt _ NInf = False"
| "fl_lt PInf _ = False"
| "fl_lt _ _ = True"

definition fl_gt :: "fl \<Rightarrow> fl \<Rightarrow> bool" where
  "fl_gt a b = fl_lt b a"

fun fl_abs :: "fl \<Rightarrow> fl" where
  "fl_abs (Fin a) = Fin \<bar>a\<bar>"
| "fl_abs PInf = PInf"
| "fl_abs NInf = PInf"
| "fl_abs NaN = NaN"

text \<open>Python's \<open>int(x)\<close> on a float truncates towards zero.\<close>

definition py_int :: "real \<Rightarrow> int" where
  "py_int x = (if 0 \<le> x then \<lfloor>x\<rfloor> else \<lceil>x\<rceil>)"

section \<open>Data of the trade simulator\<close>

text \<open>
  One row of \<open>signals_df\<close>: the columns that the strategy engine writes and the
  simulator reads. Timestamps are day numbers, so that \<open>(t2 - t1).days\<close> is a
  difference of integers.
\<close>

record bar =
  time :: int
  close :: real
  position :: int
  signal :: fl

text \<open>The dictionary \<open>current_position\<close>.\<close>

record open_position =
  p_entry_date :: int
  p_entry_price :: real
  p_quantity :: int
  p_transaction_cost :: real

text \<open>One dictionary appended to \<open>trades\<close>.\<close>

record trade =
  trade_type :: string
  entry_date :: int
  entry_price :: real
  exit_date :: int
  exit_price :: real
  quantity :: int
  transaction_cost :: real
  pnl :: real
  pnl_percentage :: fl
  hold_period_days :: int
  exit_reason :: string

text \<open>One dictionary appended to \<open>portfolio_values\<close>.\<close>

record equity_point =
  ep_time :: int
  ep_cash :: real
  ep_holdings :: real
  ep_total :: real

text \<open>The local variables of \<open>_simulate_trading\<close> that the bar loop updates.\<close>

record sim_state =
  cash :: real
  shares :: int
  current_position :: "open_position option"
  trades :: "trade list"
  portfolio_values :: "equity_point list"

text \<open>
  The engine's own settings for one run: \<open>self.transaction_cost\<close> and the two risk
  parameters read from \<open>risk_params\<close>.
\<close>

record sim_config =
  tc :: real
  position_size :: real
  stop_loss :: real

definition TRANSACTION_COST_PERCENT :: real where
  "TRANSACTION_COST_PERCENT = 0.05"

definition default_transaction_cost :: real where
  "default_transaction_cost = TRANSACTION_COST_PERCENT / 100"

definition risk_config :: "real \<Rightarrow> (string \<rightharpoonup> real) \<Rightarrow> sim_config" where
  "risk_config c risk_params =
     \<lparr> tc = c,
       position_size = (case risk_params ''position_size'' of None \<Rightarrow> 0.95 | Some v \<Rightarrow> v),
       stop_loss = (case risk_params ''stop_loss'' of None \<Rightarrow> 0.0 | Some v \<Rightarrow> v) \<rparr>"

definition init_state :: "real \<Rightarrow> sim_state" where
  "init_state initial_capital =
     \<lparr> cash = initial_capital, shares = 0, current_position = None,
       trades = [], portfolio_values = [] \<rparr>"

section \<open>The bar loop of \<open>_simulate_trading\<close>\<close>

text \<open>
  The stop-loss check at the top of the loop body: it may replace the bar's signal
  by \<open>-1\<close>. The division is a Python float division.
\<close>

definition check_stop_loss :: "sim_config \<Rightarrow> sim_state \<Rightarrow> bar \<Rightarrow> py_error + fl" where
  "check_stop_loss cfg s row =
     (case current_position s of
        None \<Rightarrow> Inr (signal row)
      | Some p \<Rightarrow>
          if 0 < stop_loss cfg then
            (if p_entry_price p = 0 then Inl ZeroDivisionError
             else if stop_loss cfg \<le> (p_entry_price p - close row) / p_entry_price p
               then Inr (Fin (- 1))
               else Inr (signal row))
          else Inr (signal row))"

text \<open>The branch \<open>signal == 1 and shares == 0\<close>.\<close>

definition buy :: "sim_config \<Rightarrow> sim_state \<Rightarrow> bar \<Rightarrow> py_error + sim_state" where
  "buy cfg s row =
     (let capital_to_use = cash s * position_size cfg;
          cost_per_share = close row * (1 + tc cfg)
      in if cost_per_share = 0 then Inl ZeroDivisionError
         else
           let shares_to_buy = py_int (capital_to_use / cost_per_share)
           in if 0 < shares_to_buy then
                let total_cost = real_of_int shares_to_buy * cost_per_share
                in Inr (s\<lparr> cash := cash s - total_cost,
                          shares := shares_to_buy,
                          current_position := Some
                            \<lparr> p_entry_date = time row,
                              p_entry_price = close row,
                              p_quantity = shares_to_buy,
                              p_transaction_cost =
                                total_cost - real_of_int shares_to_buy * close row \<rparr> \<rparr>)
              else Inr s)"

text \<open>The branch \<open>signal == -1 and shares > 0\<close>.\<close>

definition sell :: "sim_config \<Rightarrow> sim_state \<Rightarrow> bar \<Rightarrow> py_error + sim_state" where
  "sell cfg s row =
     (let proceeds_per_share = close row * (1 - tc cfg);
          total_proceeds = real_of_int (shares s) * proceeds_per_share;
          exit_cost = real_of_int (shares s) * close row - total_proceeds
      in case current_position s of
           None \<Rightarrow> Inl TypeError
         | Some p \<Rightarrow>
             let entry_value = real_of_int (p_quantity p) * p_entry_price p;
                 exit_value = real_of_int (shares s) * close row;
                 total_costs = p_transaction_cost p + exit_cost;
                 pnl_v = (exit_value - entry_value) - total_costs
             in if entry_value = 0 then Inl ZeroDivisionError
                else
                  Inr (s\<lparr> trades := trades s @
                            [\<lparr> trade_type = ''BUY'',
                               entry_date = p_entry_date p,
                               entry_price = p_entry_price p,
                               exit_date = time row,
                               exit_price = close row,
                               quantity = shares s,
                               transaction_cost = total_costs,
                               pnl = pnl_v,
                               pnl_percentage = Fin (pnl_v / entry_value),
                               hold_period_days = time row - p_entry_date p,
                               exit_reason =
                                 (if 0 < stop_loss cfg \<and>
                                     stop_loss cfg \<le>
                                       (p_entry_price p - close row) / p_entry_price p
                                  then ''stop_loss'' else ''signal'') \<rparr>],
                          cash := cash s + total_proceeds,
                          shares := 0,
                          current_position := None \<rparr>))"

text \<open>The equity point appended at the end of every loop body.\<close>

definition record_value :: "sim_state \<Rightarrow> bar \<Rightarrow> sim_state" where
  "record_value s row =
     s\<lparr> portfolio_values := portfolio_values s @
          [\<lparr> ep_time = time row,
             ep_cash = cash s,
             ep_holdings = real_of_int (shares s) * close row,
             ep_total = cash s + real_of_int (shares s) * close row \<rparr>] \<rparr>"

text \<open>One iteration of \<open>for idx, row in df.iterrows()\<close>.\<close>

definition process_bar :: "sim_config \<Rightarrow> sim_state \<Rightarrow> bar \<Rightarrow> py_error + sim_state" where
  "process_bar cfg s row =
     (case check_stop_loss cfg s row of
        Inl e \<Rightarrow> Inl e
      | Inr sig \<Rightarrow>
          (case (if sig = Fin 1 \<and> shares s = 0 then buy cfg s row
                 else if sig = Fin (- 1) \<and> 0 < shares s then sell cfg s row
                 else Inr s) of
             Inl e \<Rightarrow> Inl e
           | Inr s' \<Rightarrow> Inr (record_value s' row)))"

text \<open>The whole loop: an exception in one iteration ends the run.\<close>

fun run_bars :: "sim_config \<Rightarrow> sim_state \<Rightarrow> bar list \<Rightarrow> py_error + sim_state" where
  "run_bars cfg s [] = Inr s"
| "run_bars cfg s (row # rows) =
     (case process_bar cfg s row of
        Inl e \<Rightarrow> Inl e
      | Inr s' \<Rightarrow> run_bars cfg s' rows)"

text \<open>
  The block after the loop, \<open>Close any open position at end\<close>. It appends the
  trade and adds the proceeds to \<open>cash\<close>; it assigns neither \<open>shares\<close> nor
  \<open>current_position\<close>. The last close is read from the column, so the arithmetic here
  is that of pandas: the division for \<open>pnl_percentage\<close> does not raise.
\<close>

definition close_open_position :: "sim_config \<Rightarrow> bar list \<Rightarrow> sim_state \<Rightarrow> py_error + sim_state" where
  "close_open_position cfg df s =
     (if 0 < shares s then
        (case df of
           [] \<Rightarrow> Inl IndexError
         | _ # _ \<Rightarrow>
             let final_price = close (last df);
                 final_time = time (last df);
                 proceeds = real_of_int (shares s) * final_price * (1 - tc cfg)
             in (case current_position s of
                   None \<Rightarrow> Inl TypeError
                 | Some p \<Rightarrow>
                     let entry_value = real_of_int (p_quantity p) * p_entry_price p;
                         exit_value = real_of_int (shares s) * final_price;
                         pnl_v = (exit_value - entry_value) - p_transaction_cost p
                     in Inr (s\<lparr> trades := trades s @
                               [\<lparr> trade_type = ''BUY'',
                                  entry_date = p_entry_date p,
                                  entry_price = p_entry_price p,
                                  exit_date = final_time,
                                  exit_price = final_price,
                                  quantity = shares s,
                                  transaction_cost = p_transaction_cost p,
                                  pnl = pnl_v,
                                  pnl_percentage = fl_div (Fin pnl_v) (Fin entry_value),
                                  hold_period_days = final_time - p_entry_date p,
                                  exit_reason = ''end_of_period'' \<rparr>],
                             cash := cash s + proceeds \<rparr>)))
      else Inr s)"

text \<open>
  The local state with which \<open>_simulate_trading\<close> reaches its last statements:
  the loop, then the closing block.
\<close>

definition simulate_state :: "sim_config \<Rightarrow> real \<Rightarrow> bar list \<Rightarrow> py_error + sim_state" where
  "simulate_state cfg initial_capital df =
     (case run_bars cfg (init_state initial_capital) df of
        Inl e \<Rightarrow> Inl e
      | Inr s \<Rightarrow> close_open_position cfg df s)"

text \<open>
  The tail of \<open>_simulate_trading\<close>: the equity curve becomes \<open>portfolio_df\<close>, with the
  columns \<open>cummax\<close> and \<open>drawdown\<close> added. A data frame built from an empty list has
  no column \<open>total\<close>, and reading it raises \<open>KeyError\<close>.
\<close>

record portfolio_df =
  pf_points :: "equity_point list"
  pf_cummax :: "real list"
  pf_drawdown :: "fl list"

fun cummax_from :: "real \<Rightarrow> real list \<Rightarrow> real list" where
  "cummax_from m [] = []"
| "cummax_from m (x # xs) = max m x # cummax_from (max m x) xs"

definition cummax :: "real list \<Rightarrow> real list" where
  "cummax xs = (case xs of [] \<Rightarrow> [] | x # t \<Rightarrow> x # cummax_from x t)"

definition simulate_trading ::
  "sim_config \<Rightarrow> bar list \<Rightarrow> real \<Rightarrow> py_error + portfolio_df \<times> trade list" where
  "simulate_trading cfg signals_df initial_capital =
     (case simulate_state cfg initial_capital signals_df of
        Inl e \<Rightarrow> Inl e
      | Inr s \<Rightarrow>
          if portfolio_values s = [] then Inl KeyError
          else
            let total = map ep_total (portfolio_values s);
                cm = cummax total
            in Inr (\<lparr> pf_points = portfolio_values s,
                      pf_cummax = cm,
                      pf_drawdown = map2 (\<lambda>t m. fl_div (Fin (t - m)) (Fin m)) total cm \<rparr>,
                    trades s))"

section \<open>Indicators\<close>

text \<open>
  A pandas float column is a list of \<open>fl\<close>. \<open>rolling(window=w).mean()\<close> is NaN until
  \<open>w\<close> values are there, NaN where the window holds a NaN, and NaN everywhere for
  \<open>w = 0\<close>; a negative or fractional window raises \<open>ValueError\<close>. Parameters are JSON
  numbers, modelled as reals: \<open>as_window\<close> takes a non-negative whole number as the
  window.
\<close>

definition rolling_mean :: "nat \<Rightarrow> fl list \<Rightarrow> fl list" where
  "rolling_mean w xs =
     map (\<lambda>i. if w = 0 \<or> Suc i < w then NaN
              else let win = take w (drop (Suc i - w) xs)
                   in if NaN \<in> set win then NaN
                      else fl_div (foldl fl_add (Fin 0) win) (Fin (real w)))
         [0..<length xs]"

definition as_window :: "real \<Rightarrow> py_error + nat" where
  "as_window v =
     (if v = real_of_int \<lfloor>v\<rfloor> \<and> 0 \<le> v then Inr (nat \<lfloor>v\<rfloor>)
      else Inl (ValueError ''window must be an integer 0 or greater''))"

definition sma :: "fl list \<Rightarrow> real \<Rightarrow> py_error + fl list" where
  "sma data window =
     (case as_window window of Inl e \<Rightarrow> Inl e | Inr w \<Rightarrow> Inr (rolling_mean w data))"

text \<open>\<open>Series.diff()\<close>: NaN at the first index, then the difference to the previous row.\<close>

definition diff :: "fl list \<Rightarrow> fl list" where
  "diff xs = (case xs of [] \<Rightarrow> [] | _ # t \<Rightarrow> NaN # map2 (\<lambda>a b. fl_sub b a) xs t)"

text \<open>\<open>s.where(cond, 0)\<close> keeps the value where the condition holds and puts 0 elsewhere.\<close>

definition where_or_zero :: "(fl \<Rightarrow> bool) \<Rightarrow> fl list \<Rightarrow> fl list" where
  "where_or_zero cond xs = map (\<lambda>x. if cond x then x else Fin 0) xs"

text \<open>The two rolling averages inside \<open>Indicators.rsi\<close>, for a window \<open>w\<close>.\<close>

definition gain :: "nat \<Rightarrow> fl list \<Rightarrow> fl list" where
  "gain w data = rolling_mean w (where_or_zero (\<lambda>d. fl_gt d (Fin 0)) (diff data))"

definition loss :: "nat \<Rightarrow> fl list \<Rightarrow> fl list" where
  "loss w data = rolling_mean w (map fl_neg (where_or_zero (\<lambda>d. fl_lt d (Fin 0)) (diff data)))"

definition rsi :: "fl list \<Rightarrow> real \<Rightarrow> py_error + fl list" where
  "rsi data period =
     (case as_window period of
        Inl e \<Rightarrow> Inl e
      | Inr w \<Rightarrow>
          let rs = map2 fl_div (gain w data) (loss w data)
          in Inr (map (\<lambda>r. fl_sub (Fin 100) (fl_div (Fin 100) (fl_add (Fin 1) r))) rs))"

text \<open>
  \<open>ewm(span=n, adjust=False).mean()\<close> on a column of finite values: the first value
  seeds the average, the smoothing factor is \<open>2 / (n + 1)\<close>; a span below 1 raises.
\<close>

fun ewm_from :: "real \<Rightarrow> real \<Rightarrow> real list \<Rightarrow> real list" where
  "ewm_from a y [] = []"
| "ewm_from a y (x # xs) = ((1 - a) * y + a * x) # ewm_from a ((1 - a) * y + a * x) xs"

definition ema :: "real list \<Rightarrow> real \<Rightarrow> py_error + real list" where
  "ema data sp =
     (if sp < 1 then Inl (ValueError ''span must satisfy: span >= 1'')
      else Inr (case data of [] \<Rightarrow> [] | x # xs \<Rightarrow> x # ewm_from (2 / (sp + 1)) x xs))"

definition macd :: "real list \<Rightarrow> real \<Rightarrow> real \<Rightarrow> real \<Rightarrow> py_error + real list \<times> real list \<times> real list" where
  "macd data fast slow sig =
     (case ema data fast of
        Inl e \<Rightarrow> Inl e
      | Inr ema_fast \<Rightarrow>
          (case ema data slow of
             Inl e \<Rightarrow> Inl e
           | Inr ema_slow \<Rightarrow>
               let macd_line = map2 (-) ema_fast ema_slow
               in (case ema macd_line sig of
                     Inl e \<Rightarrow> Inl e
                   | Inr signal_line \<Rightarrow>
                       Inr (macd_line, signal_line, map2 (-) macd_line signal_line))))"

section \<open>Strategy engine\<close>

text \<open>The rows read from the price table; only these columns reach the core.\<close>

record ohlcv =
  o_stock_id :: int
  o_time :: int
  o_close :: real

record strategy =
  strategy_type :: string
  parameters :: "string \<rightharpoonup> real"
  risk_params :: "(string \<rightharpoonup> real) option"

definition get_param :: "(string \<rightharpoonup> real) \<Rightarrow> string \<Rightarrow> real \<Rightarrow> real" where
  "get_param ps k d = (case ps k of None \<Rightarrow> d | Some v \<Rightarrow> v)"

definition closes :: "ohlcv list \<Rightarrow> fl list" where
  "closes data = map (\<lambda>r. Fin (o_close r)) data"

text \<open>
  The columns \<open>position\<close> and \<open>signal = position.diff()\<close> written next to the price
  columns.
\<close>

definition with_signals :: "ohlcv list \<Rightarrow> int list \<Rightarrow> bar list" where
  "with_signals data pos =
     map2 (\<lambda>r (p, sg). \<lparr> time = o_time r, close = o_close r, position = p, signal = sg \<rparr>)
       data (zip pos (diff (map (\<lambda>p. Fin (real_of_int p)) pos)))"

definition ma_crossover_strategy :: "(string \<rightharpoonup> real) \<Rightarrow> ohlcv list \<Rightarrow> py_error + bar list" where
  "ma_crossover_strategy ps data =
     (let short_window = get_param ps ''short_window'' 50;
          long_window = get_param ps ''long_window'' 200
      in case sma (closes data) short_window of
           Inl e \<Rightarrow> Inl e
         | Inr sma_short \<Rightarrow>
             (case sma (closes data) long_window of
                Inl e \<Rightarrow> Inl e
              | Inr sma_long \<Rightarrow>
                  Inr (with_signals data
                         (map2 (\<lambda>a b. if fl_gt a b then 1 else 0) sma_short sma_long))))"

definition rsi_position :: "real \<Rightarrow> real \<Rightarrow> fl \<Rightarrow> int" where
  "rsi_position oversold overbought r =
     (let p0 = 0;
          p1 = (if fl_lt r (Fin oversold) then 1 else p0);
          p2 = (if fl_gt r (Fin overbought) then 0 else p1)
      in p2)"

definition rsi_strategy :: "(string \<rightharpoonup> real) \<Rightarrow> ohlcv list \<Rightarrow> py_error + bar list" where
  "rsi_strategy ps data =
     (let period = get_param ps ''period'' 14;
          oversold = get_param ps ''oversold'' 30;
          overbought = get_param ps ''overbought'' 70
      in case rsi (closes data) period of
           Inl e \<Rightarrow> Inl e
         | Inr rsi_col \<Rightarrow>
             Inr (with_signals data (map (rsi_position oversold overbought) rsi_col)))"

definition macd_strategy :: "(string \<rightharpoonup> real) \<Rightarrow> ohlcv list \<Rightarrow> py_error + bar list" where
  "macd_strategy ps data =
     (let fast = get_param ps ''fast'' 12;
          slow = get_param ps ''slow'' 26;
          signal_period = get_param ps ''signal'' 9
      in case macd (map o_close data) fast slow signal_period of
           Inl e \<Rightarrow> Inl e
         | Inr (macd_line, signal_line, hist) \<Rightarrow>
             Inr (with_signals data
                    (map2 (\<lambda>a b. if b < a then 1 else 0) macd_line signal_line)))"

definition combined_strategy :: "(string \<rightharpoonup> real) \<Rightarrow> ohlcv list \<Rightarrow> py_error + bar list" where
  "combined_strategy ps data =
     (let short_window = get_param ps ''short_window'' 50;
          long_window = get_param ps ''long_window'' 200;
          rsi_period = get_param ps ''rsi_period'' 14;
          rsi_overbought = get_param ps ''rsi_overbought'' 70
      in case sma (closes data) short_window of
           Inl e \<Rightarrow> Inl e
         | Inr sma_short \<Rightarrow>
         (case sma (closes data) long_window of
           Inl e \<Rightarrow> Inl e
         | Inr sma_long \<Rightarrow>
         (case rsi (closes data) rsi_period of
           Inl e \<Rightarrow> Inl e
         | Inr rsi_col \<Rightarrow>
         (case macd (map o_close data) 12 26 9 of
           Inl e \<Rightarrow> Inl e
         | Inr (macd_line, signal_line, hist) \<Rightarrow>
             let ma_bullish = map2 fl_gt sma_short sma_long;
                 rsi_ok = map (\<lambda>r. fl_lt r (Fin rsi_overbought)) rsi_col;
                 macd_bullish = map2 (\<lambda>a b. b < a) macd_line signal_line
             in Inr (with_signals data
                       (map (\<lambda>(a, b, c). if a \<and> b \<and> c then 1 else 0)
                          (zip ma_bullish (zip rsi_ok macd_bullish))))))))"

definition generate_signals :: "string \<Rightarrow> (string \<rightharpoonup> real) \<Rightarrow> ohlcv list \<Rightarrow> py_error + bar list" where
  "generate_signals stype ps data =
     (if stype = ''ma_crossover'' then ma_crossover_strategy ps data
      else if stype = ''rsi'' then rsi_strategy ps data
      else if stype = ''macd'' then macd_strategy ps data
      else if stype = ''combined'' then combined_strategy ps data
      else Inl (ValueError ''Unknown strategy type''))"

section \<open>Metrics\<close>

text \<open>
  Column reductions of pandas skip NaN. The standard deviation is the sample one
  (\<open>ddof = 1\<close>): NaN below two values; an infinite value leaves it NaN.
\<close>

definition dropna :: "fl list \<Rightarrow> fl list" where
  "dropna xs = filter (\<lambda>x. x \<noteq> NaN) xs"

definition series_mean :: "fl list \<Rightarrow> fl" where
  "series_mean xs =
     (let ys = dropna xs
      in if ys = [] then NaN
         else fl_div (foldl fl_add (Fin 0) ys) (Fin (real (length ys))))"

fun the_fin :: "fl \<Rightarrow> real option" where
  "the_fin (Fin a) = Some a"
| "the_fin _ = None"

definition series_std :: "fl list \<Rightarrow> fl" where
  "series_std xs =
     (let ys = dropna xs
      in if length ys < 2 then NaN
         else if \<exists>y \<in> set ys. the_fin y = None then NaN
         else
           let vs = map (\<lambda>y. case the_fin y of Some v \<Rightarrow> v | None \<Rightarrow> 0) ys;
               m = sum_list vs / real (length vs)
           in Fin (sqrt (sum_list (map (\<lambda>v. (v - m)\<^sup>2) vs) / real (length vs - 1))))"

definition fl_min :: "fl \<Rightarrow> fl \<Rightarrow> fl" where
  "fl_min a b = (if fl_lt b a then b else a)"

definition series_min :: "fl list \<Rightarrow> fl" where
  "series_min xs =
     (case dropna xs of [] \<Rightarrow> NaN | y # ys \<Rightarrow> foldl fl_min y ys)"

text \<open>\<open>pct_change()\<close> on a column of finite values.\<close>

definition pct_change :: "real list \<Rightarrow> fl list" where
  "pct_change xs =
     (case xs of [] \<Rightarrow> []
      | _ # t \<Rightarrow> NaN # map2 (\<lambda>a b. fl_sub (fl_div (Fin b) (Fin a)) (Fin 1)) xs t)"

record metrics =
  total_return :: fl
  sharpe_ratio :: fl
  max_drawdown :: fl
  final_value :: real
  win_rate :: real
  total_trades :: nat
  winning_trades :: nat
  losing_trades :: nat
  avg_win :: real
  avg_loss :: real
  profit_factor :: real

definition calculate_metrics :: "portfolio_df \<Rightarrow> real \<Rightarrow> py_error + metrics" where
  "calculate_metrics pf initial_capital =
     (let total = map ep_total (pf_points pf)
      in if total = [] then Inl IndexError
         else
           let final_value_v = last total;
               total_return_v = fl_div (Fin (final_value_v - initial_capital)) (Fin initial_capital);
               returns = pct_change total;
               mean_return = series_mean returns;
               std_return = series_std returns;
               sharpe = (if fl_gt std_return (Fin 0)
                         then fl_mul (fl_div mean_return std_return) (Fin (sqrt 252))
                         else Fin 0);
               max_dd = fl_abs (series_min (pf_drawdown pf))
           in Inr \<lparr> total_return = total_return_v,
                    sharpe_ratio = sharpe,
                    max_drawdown = max_dd,
                    final_value = final_value_v,
                    win_rate = 0.0,
                    total_trades = 0,
                    winning_trades = 0,
                    losing_trades = 0,
                    avg_win = 0.0,
                    avg_loss = 0.0,
                    profit_factor = 0.0 \<rparr>)"

record trade_stats =
  ts_total_trades :: nat
  ts_winning_trades :: nat
  ts_losing_trades :: nat
  ts_win_rate :: real
  ts_avg_win :: real
  ts_avg_loss :: real
  ts_profit_factor :: real

definition calculate_trade_stats :: "trade list \<Rightarrow> trade_stats" where
  "calculate_trade_stats ts =
     (if ts = [] then
        \<lparr> ts_total_trades = 0, ts_winning_trades = 0, ts_losing_trades = 0,
          ts_win_rate = 0, ts_avg_win = 0, ts_avg_loss = 0, ts_profit_factor = 0 \<rparr>
      else
        let winning = filter (\<lambda>t. 0 < pnl t) ts;
            losing = filter (\<lambda>t. pnl t < 0) ts;
            total_wins = sum_list (map pnl winning);
            total_losses = \<bar>sum_list (map pnl losing)\<bar>
        in \<lparr> ts_total_trades = length ts,
             ts_winning_trades = length winning,
             ts_losing_trades = length losing,
             ts_win_rate = (if ts \<noteq> [] then real (length winning) / real (length ts) else 0),
             ts_avg_win = (if winning \<noteq> [] then total_wins / real (length winning) else 0),
             ts_avg_loss = (if losing \<noteq> [] then total_losses / real (length losing) else 0),
             ts_profit_factor = (if 0 < total_losses then total_wins / total_losses else 0) \<rparr>)"

text \<open>\<open>metrics.update(trade_stats)\<close>.\<close>

definition update_metrics :: "metrics \<Rightarrow> trade_stats \<Rightarrow> metrics" where
  "update_metrics m st =
     m\<lparr> total_trades := ts_total_trades st,
        winning_trades := ts_winning_trades st,
        losing_trades := ts_losing_trades st,
        win_rate := ts_win_rate st,
        avg_win := ts_avg_win st,
        avg_loss := ts_avg_loss st,
        profit_factor := ts_profit_factor st \<rparr>"

definition calculate_benchmark_return :: "int \<Rightarrow> int \<Rightarrow> real" where
  "calculate_benchmark_return start_date end_date =
     (let days = end_date - start_date;
          years = real_of_int days / 365.25;
          annual_return = 0.12
      in annual_return * years)"

section \<open>The orchestrator \<open>run_backtest\<close>\<close>

text \<open>
  The database as the three queries of \<open>run_backtest\<close> read it. Writing the result rows
  back is not modelled; the result is the returned dictionary, without the wall-clock time.
  The keys \<open>benchmark_return\<close> and \<open>alpha\<close>, which \<open>run_backtest\<close> adds to the metrics,
  are fields of the result.
\<close>

record database =
  db_strategies :: "int \<rightharpoonup> strategy"
  db_stocks :: "string \<rightharpoonup> int"
  db_ohlcv :: "ohlcv list"

record backtest_result =
  r_metrics :: metrics
  r_benchmark_return :: real
  r_alpha :: fl
  r_trades :: "trade list"
  r_equity_curve :: "(int \<times> real \<times> fl) list"

definition load_ohlcv :: "database \<Rightarrow> int \<Rightarrow> int \<Rightarrow> int \<Rightarrow> ohlcv list" where
  "load_ohlcv db stock start_date end_date =
     sort_key o_time
       (filter (\<lambda>r. o_stock_id r = stock \<and> start_date \<le> o_time r \<and> o_time r \<le> end_date)
          (db_ohlcv db))"

definition run_backtest ::
  "database \<Rightarrow> real \<Rightarrow> int \<Rightarrow> string \<Rightarrow> int \<Rightarrow> int \<Rightarrow> real \<Rightarrow> py_error + backtest_result" where
  "run_backtest db transaction_cost_v strategy_id stock_symbol start_date end_date initial_capital =
     (case db_strategies db strategy_id of
        None \<Rightarrow> Inl (ValueError ''Strategy not found'')
      | Some strat \<Rightarrow>
     (case db_stocks db stock_symbol of
        None \<Rightarrow> Inl (ValueError ''Stock not found'')
      | Some stock \<Rightarrow>
          let data = load_ohlcv db stock start_date end_date
          in if data = [] then Inl (ValueError ''No data found'')
             else
     (case generate_signals (strategy_type strat) (parameters strat) data of
        Inl e \<Rightarrow> Inl e
      | Inr signals_df \<Rightarrow>
     (case simulate_trading
             (risk_config transaction_cost_v
                (case risk_params strat of None \<Rightarrow> Map.empty | Some rp \<Rightarrow> rp))
             signals_df initial_capital of
        Inl e \<Rightarrow> Inl e
      | Inr (pf, trades_list) \<Rightarrow>
     (case calculate_metrics pf initial_capital of
        Inl e \<Rightarrow> Inl e
      | Inr m0 \<Rightarrow>
          let m = update_metrics m0 (calculate_trade_stats trades_list);
              benchmark_return = calculate_benchmark_return start_date end_date
          in Inr \<lparr> r_metrics = m,
                   r_benchmark_return = benchmark_return,
                   r_alpha = fl_sub (total_return m) (Fin benchmark_return),
                   r_trades = trades_list,
                   r_equity_curve =
                     zip (map ep_time (pf_points pf))
                       (zip (map ep_total (pf_points pf)) (pf_drawdown pf)) \<rparr>)))))"

section \<open>Predicates used in the statements\<close>

text \<open>
  What ties \<open>shares\<close> to \<open>current_position\<close> in every state the loop reaches: no
  position and no shares, or a position whose quantity is the share count, bought at a
  non-zero price, with the entry cost that the buy branch recorded.
\<close>

definition consistent :: "sim_config \<Rightarrow> sim_state \<Rightarrow> bool" where
  "consistent cfg s =
     (case current_position s of
        None \<Rightarrow> shares s = 0
      | Some p \<Rightarrow>
          0 < shares s \<and> p_quantity p = shares s \<and> p_entry_price p \<noteq> 0 \<and>
          p_transaction_cost p =
            real_of_int (shares s) * (p_entry_price p * (1 + tc cfg)) -
            real_of_int (shares s) * p_entry_price p)"



text \<open>The equity curve of a run that never fills: every point holds the same cash and no holdings.\<close>

definition flat_points :: "real \<Rightarrow> bar list \<Rightarrow> equity_point list" where
  "flat_points c df =
     map (\<lambda>b. \<lparr> ep_time = time b, ep_cash = c, ep_holdings = 0, ep_total = c \<rparr>) df"

section \<open>Sample inputs\<close>

text \<open>
  Concrete inputs on which the statements below are evaluated: the five-bar scenario of the
  specification, a two-bar run that buys on its last bar, a run that meets its stop loss,
  a run with a cost rate of one percent, a flat equity curve, a single winning trade, and
  three short price columns for the rsi indicator.
\<close>

definition scenario_strategy :: strategy where
  "scenario_strategy =
     \<lparr> strategy_type = ''ma_crossover'',
       parameters = [''short_window'' \<mapsto> 1, ''long_window'' \<mapsto> 2],
       risk_params = Some [''position_size'' \<mapsto> 1, ''stop_loss'' \<mapsto> 0] \<rparr>"

definition scenario_rows :: "ohlcv list" where
  "scenario_rows =
     [\<lparr> o_stock_id = 7, o_time = 1, o_close = 100 \<rparr>,
      \<lparr> o_stock_id = 7, o_time = 2, o_close = 102 \<rparr>,
      \<lparr> o_stock_id = 7, o_time = 3, o_close = 99 \<rparr>,
      \<lparr> o_stock_id = 7, o_time = 4, o_close = 101 \<rparr>,
      \<lparr> o_stock_id = 7, o_time = 5, o_close = 105 \<rparr>]"

definition scenario_db :: database where
  "scenario_db =
     \<lparr> db_strategies = [1 \<mapsto> scenario_strategy],
       db_stocks = [''ACME'' \<mapsto> 7],
       db_ohlcv = scenario_rows \<rparr>"

definition scenario_bars :: "bar list" where
  "scenario_bars =
     [\<lparr>time = 1, close = 100, position = 0, signal = NaN\<rparr>,
      \<lparr>time = 2, close = 102, position = 1, signal = Fin 1\<rparr>,
      \<lparr>time = 3, close = 99, position = 0, signal = Fin (- 1)\<rparr>,
      \<lparr>time = 4, close = 101, position = 1, signal = Fin 1\<rparr>,
      \<lparr>time = 5, close = 105, position = 1, signal = Fin 0\<rparr>]"

definition scenario_trades :: "trade list" where
  "scenario_trades =
     [\<lparr>trade_type = ''BUY'', entry_date = 2, entry_price = 102,
        exit_date = 3, exit_price = 99, quantity = 9,
        transaction_cost = 0, pnl = - 27, pnl_percentage = Fin (- (1 / 34)),
        hold_period_days = 1, exit_reason = ''signal''\<rparr>,
      \<lparr>trade_type = ''BUY'', entry_date = 4, entry_price = 101,
        exit_date = 5, exit_price = 105, quantity = 9,
        transaction_cost = 0, pnl = 36, pnl_percentage = Fin (4 / 101),
        hold_period_days = 1, exit_reason = ''end_of_period''\<rparr>]"

definition scenario_points :: "equity_point list" where
  "scenario_points =
     [\<lparr>ep_time = 1, ep_cash = 1000, ep_holdings = 0, ep_total = 1000\<rparr>,
      \<lparr>ep_time = 2, ep_cash = 82, ep_holdings = 918, ep_total = 1000\<rparr>,
      \<lparr>ep_time = 3, ep_cash = 973, ep_holdings = 0, ep_total = 973\<rparr>,
      \<lparr>ep_time = 4, ep_cash = 64, ep_holdings = 909, ep_total = 973\<rparr>,
      \<lparr>ep_time = 5, ep_cash = 64, ep_holdings = 945, ep_total = 1009\<rparr>]"

definition scenario_result :: "py_error + backtest_result" where
  "scenario_result = run_backtest scenario_db 0 1 ''ACME'' 1 5 1000"

definition sample_cfg :: sim_config where
  "sample_cfg = \<lparr> tc = 0, position_size = 1, stop_loss = 0 \<rparr>"

definition sample_bars :: "bar list" where
  "sample_bars =
     [\<lparr> time = 1, close = 100, position = 0, signal = NaN \<rparr>,
      \<lparr> time = 2, close = 102, position = 1, signal = Fin 1 \<rparr>]"

definition sample_state :: sim_state where
  "sample_state =
     \<lparr> cash = 82, shares = 9,
       current_position =
         Some \<lparr> p_entry_date = 2, p_entry_price = 102, p_quantity = 9,
                p_transaction_cost = 0 \<rparr>,
       trades = [],
       portfolio_values =
         [\<lparr> ep_time = 1, ep_cash = 1000, ep_holdings = 0, ep_total = 1000 \<rparr>,
          \<lparr> ep_time = 2, ep_cash = 82, ep_holdings = 918, ep_total = 1000 \<rparr>] \<rparr>"


definition stop_bars :: "bar list" where
  "stop_bars = [\<lparr> time = 1, close = 100, position = 1, signal = Fin 1 \<rparr>]"




definition cost_cfg :: sim_config where
  "cost_cfg = \<lparr> tc = 1 / 100, position_size = 1, stop_loss = 0 \<rparr>"

definition cost_state :: sim_state where
  "cost_state =
     \<lparr> cash = 91, shares = 9,
       current_position =
         Some \<lparr> p_entry_date = 1, p_entry_price = 100, p_quantity = 9,
                p_transaction_cost = 9 \<rparr>,
       trades = [],
       portfolio_values =
         [\<lparr> ep_time = 1, ep_cash = 91, ep_holdings = 900, ep_total = 991 \<rparr>] \<rparr>"

definition flat_portfolio :: portfolio_df where
  "flat_portfolio =
     \<lparr> pf_points =
         [\<lparr> ep_time = 1, ep_cash = 1000, ep_holdings = 0, ep_total = 1000 \<rparr>,
          \<lparr> ep_time = 2, ep_cash = 1000, ep_holdings = 0, ep_total = 1000 \<rparr>,
          \<lparr> ep_time = 3, ep_cash = 1000, ep_holdings = 0, ep_total = 1000 \<rparr>],
       pf_cummax = [1000, 1000, 1000],
       pf_drawdown = [Fin 0, Fin 0, Fin 0] \<rparr>"

definition winning_trades_only :: "trade list" where
  "winning_trades_only =
     [\<lparr> trade_type = ''BUY'', entry_date = 1, entry_price = 100,
        exit_date = 2, exit_price = 110, quantity = 10,
        transaction_cost = 0, pnl = 100, pnl_percentage = Fin (1 / 10),
        hold_period_days = 1, exit_reason = ''signal'' \<rparr>]"

definition constant_rows :: "ohlcv list" where
  "constant_rows =
     [\<lparr> o_stock_id = 7, o_time = 1, o_close = 5 \<rparr>,
      \<lparr> o_stock_id = 7, o_time = 2, o_close = 5 \<rparr>,
      \<lparr> o_stock_id = 7, o_time = 3, o_close = 5 \<rparr>]"

definition rising_closes :: "fl list" where
  "rising_closes = [Fin 1, Fin 2, Fin 3]"

definition dip_rows :: "ohlcv list" where
  "dip_rows =
     [\<lparr> o_stock_id = 7, o_time = 1, o_close = 10 \<rparr>,
      \<lparr> o_stock_id = 7, o_time = 2, o_close = 8 \<rparr>,
      \<lparr> o_stock_id = 7, o_time = 3, o_close = 9 \<rparr>]"

definition negative_capital_result :: "py_error + backtest_result" where
  "negative_capital_result = run_backtest scenario_db 0 1 ''ACME'' 1 5 (- 1000)"

section \<open>Properties of the bar loop\<close>

lemmas sim_defs = process_bar_def check_stop_loss_def buy_def sell_def record_value_def
  init_state_def py_int_def Let_def close_open_position_def simulate_state_def

lemma consistent_init: "consistent cfg (init_state c)"
  by (simp add: consistent_def init_state_def)

lemma buy_consistent:
  assumes "buy cfg s row = Inr s'" "consistent cfg s"
  shows "consistent cfg s'"
  using assms
  by (auto simp: buy_def consistent_def Let_def split: if_splits option.splits)

lemma sell_consistent:
  assumes "sell cfg s row = Inr s'"
  shows "consistent cfg s'"
  using assms
  by (auto simp: sell_def consistent_def Let_def split: if_splits option.splits)

lemma record_value_consistent: "consistent cfg (record_value s row) = consistent cfg s"
  by (simp add: record_value_def consistent_def split: option.splits)

lemma process_bar_consistent:
  assumes "process_bar cfg s row = Inr s'" "consistent cfg s"
  shows "consistent cfg s'"
  using assms
  by (auto simp: process_bar_def record_value_consistent
           split: sum.splits if_splits dest: buy_consistent sell_consistent)

lemma run_bars_consistent:
  "run_bars cfg s df = Inr s' \<Longrightarrow> consistent cfg s \<Longrightarrow> consistent cfg s'"
  by (induction df arbitrary: s) (auto split: sum.splits dest: process_bar_consistent)

lemma run_bars_append:
  "run_bars cfg s (xs @ ys) =
     (case run_bars cfg s xs of Inl e \<Rightarrow> Inl e | Inr s' \<Rightarrow> run_bars cfg s' ys)"
  by (induction xs arbitrary: s) (auto split: sum.splits)

lemma run_bars_split:
  assumes "run_bars cfg s df = Inr s'" "k < length df"
  obtains s0 s1 where "run_bars cfg s (take k df) = Inr s0"
    and "process_bar cfg s0 (df ! k) = Inr s1"
    and "run_bars cfg s (take (Suc k) df) = Inr s1"
    and "run_bars cfg s1 (drop (Suc k) df) = Inr s'"
proof -
  have df: "df = take k df @ (df ! k) # drop (Suc k) df"
    using assms(2) by (simp add: id_take_nth_drop)
  have "run_bars cfg s (take k df @ (df ! k) # drop (Suc k) df) = Inr s'"
    using assms(1) df by simp
  then obtain s0 s1 where a: "run_bars cfg s (take k df) = Inr s0"
    and b: "process_bar cfg s0 (df ! k) = Inr s1"
    and c: "run_bars cfg s1 (drop (Suc k) df) = Inr s'"
    by (auto simp: run_bars_append split: sum.splits)
  have "run_bars cfg s (take (Suc k) df) = Inr s1"
    using a b assms(2) by (simp add: take_Suc_conv_app_nth run_bars_append)
  with a b c that show thesis by blast
qed

lemma process_bar_portfolio:
  assumes "process_bar cfg s row = Inr s'"
  shows "portfolio_values s' = portfolio_values s @
           [\<lparr> ep_time = time row, ep_cash = cash s',
              ep_holdings = real_of_int (shares s') * close row,
              ep_total = cash s' + real_of_int (shares s') * close row \<rparr>]"
  using assms
  by (auto simp: process_bar_def record_value_def buy_def sell_def Let_def
           split: sum.splits if_splits option.splits)

lemma run_bars_portfolio:
  "run_bars cfg s df = Inr s' \<Longrightarrow>
     \<exists>ext. portfolio_values s' = portfolio_values s @ ext \<and> length ext = length df"
proof (induction df arbitrary: s)
  case Nil
  then show ?case by simp
next
  case (Cons row rows)
  then obtain s1 where a: "process_bar cfg s row = Inr s1" and b: "run_bars cfg s1 rows = Inr s'"
    by (auto split: sum.splits)
  from Cons.IH[OF b] obtain ext where "portfolio_values s' = portfolio_values s1 @ ext" "length ext = length rows"
    by blast
  with process_bar_portfolio[OF a] show ?case by simp
qed

lemma portfolio_nth:
  assumes "run_bars cfg (init_state c) df = Inr s" and "i < length df"
  shows "length (portfolio_values s) = length df \<and>
         (\<exists>si. run_bars cfg (init_state c) (take (Suc i) df) = Inr si \<and>
            portfolio_values s ! i =
              \<lparr> ep_time = time (df ! i), ep_cash = cash si,
                ep_holdings = real_of_int (shares si) * close (df ! i),
                ep_total = cash si + real_of_int (shares si) * close (df ! i) \<rparr>)"
proof -
  from run_bars_portfolio[OF assms(1)]
  have len: "length (portfolio_values s) = length df"
    by (auto simp: init_state_def)
  from assms obtain s0 s1 where
    a: "run_bars cfg (init_state c) (take i df) = Inr s0" and
    b: "process_bar cfg s0 (df ! i) = Inr s1" and
    c: "run_bars cfg (init_state c) (take (Suc i) df) = Inr s1" and
    d: "run_bars cfg s1 (drop (Suc i) df) = Inr s"
    by (rule run_bars_split)
  from run_bars_portfolio[OF a] assms(2)
  have l0: "length (portfolio_values s0) = i"
    by (auto simp: init_state_def)
  from run_bars_portfolio[OF d] obtain ext where
    e: "portfolio_values s = portfolio_values s1 @ ext" by blast
  have "portfolio_values s ! i =
          \<lparr> ep_time = time (df ! i), ep_cash = cash s1,
            ep_holdings = real_of_int (shares s1) * close (df ! i),
            ep_total = cash s1 + real_of_int (shares s1) * close (df ! i) \<rparr>"
    using e process_bar_portfolio[OF b] l0 by (simp add: nth_append)
  with len c show ?thesis by blast
qed










text \<open>
  Claim C10. With a cost rate \<open>c > 0\<close>, when the loop ends with shares held the closing
  block appends an \<open>end_of_period\<close> trade whose \<open>transaction_cost\<close> is the entry-side
  cost \<open>quantity \<times> entry_price \<times> c\<close> alone and whose \<open>pnl\<close> subtracts only that,
  while the cash credited is \<open>shares \<times> close \<times> (1 - c)\<close>. The recorded pnl therefore
  exceeds the cash the trade brought in (credit minus the purchase debit) by
  \<open>shares \<times> close \<times> c\<close>.
\<close>

theorem end_of_period_pnl_omits_exit_cost:
  assumes "0 < tc cfg"
    and "run_bars cfg (init_state initial_capital) df = Inr s"
    and "0 < shares s"
  shows "\<exists>p t s'. current_position s = Some p \<and>
           close_open_position cfg df s = Inr s' \<and>
           trades s' = trades s @ [t] \<and>
           exit_reason t = ''end_of_period'' \<and>
           exit_price t = close (last df) \<and>
           transaction_cost t = real_of_int (p_quantity p) * p_entry_price p * tc cfg \<and>
           pnl t = (real_of_int (shares s) * close (last df) -
                    real_of_int (p_quantity p) * p_entry_price p) -
                   real_of_int (p_quantity p) * p_entry_price p * tc cfg \<and>
           cash s' - cash s = real_of_int (shares s) * close (last df) * (1 - tc cfg) \<and>
           pnl t - ((cash s' - cash s) -
                    real_of_int (p_quantity p) * p_entry_price p * (1 + tc cfg)) =
             real_of_int (shares s) * close (last df) * tc cfg"
proof -
  have c: "consistent cfg s"
    using run_bars_consistent[OF assms(2) consistent_init] .
  with assms(3) obtain p where p: "current_position s = Some p"
    by (cases "current_position s") (simp_all add: consistent_def)
  with c have q: "p_quantity p = shares s" and ne: "p_entry_price p \<noteq> 0"
    and cost: "p_transaction_cost p =
      real_of_int (shares s) * (p_entry_price p * (1 + tc cfg)) -
      real_of_int (shares s) * p_entry_price p"
    by (simp_all add: consistent_def)
  have dfne: "df \<noteq> []"
    using assms(2,3) by (auto simp: init_state_def)
  then obtain b bs where df: "df = b # bs" by (cases df) auto
  have ev: "real_of_int (p_quantity p) * p_entry_price p \<noteq> 0"
    using assms(3) q ne by simp
  show ?thesis
    using p q ev cost assms(3) unfolding df
    by (simp add: close_open_position_def Let_def algebra_simps del: last.simps)
qed

text \<open>
  Claim C7. For every bar \<open>i\<close> of a run, the equity point appended for the bar holds
  the cash and shares of the state after the bar's fill: \<open>holdings = shares \<times> close\<close>
  and \<open>total = cash + holdings\<close>; the curve has one point per bar.
\<close>

theorem equity_point_consistent:
  assumes "run_bars cfg (init_state c) df = Inr s" and "i < length df"
  shows "length (portfolio_values s) = length df \<and>
         (\<exists>si. run_bars cfg (init_state c) (take (Suc i) df) = Inr si \<and>
            ep_cash (portfolio_values s ! i) = cash si \<and>
            ep_holdings (portfolio_values s ! i) = real_of_int (shares si) * close (df ! i) \<and>
            ep_total (portfolio_values s ! i) =
              ep_cash (portfolio_values s ! i) + ep_holdings (portfolio_values s ! i))"
proof -
  from portfolio_nth[OF assms] obtain si where
    "length (portfolio_values s) = length df"
    "run_bars cfg (init_state c) (take (Suc i) df) = Inr si"
    "portfolio_values s ! i =
       \<lparr> ep_time = time (df ! i), ep_cash = cash si,
         ep_holdings = real_of_int (shares si) * close (df ! i),
         ep_total = cash si + real_of_int (shares si) * close (df ! i) \<rparr>"
    by blast
  then show ?thesis by simp
qed

subsection \<open>Further facts about the loop and the closing block\<close>

text \<open>The configured cost rate, 0.05 percent, lies within the bounds the statements ask for.\<close>

lemma default_transaction_cost_bounds:
  "0 < default_transaction_cost \<and> default_transaction_cost \<le> 1"
  by (simp add: default_transaction_cost_def TRANSACTION_COST_PERCENT_def)

text \<open>
  From the initial state the loop raises nothing as long as no close is zero and the
  cost rate is not \<open>-1\<close>.
\<close>

lemma process_bar_returns:
  assumes "consistent cfg s" "close row \<noteq> 0" "1 + tc cfg \<noteq> 0"
  shows "\<exists>s'. process_bar cfg s row = Inr s'"
proof (cases "current_position s")
  case None
  with assms show ?thesis
    by (simp add: process_bar_def check_stop_loss_def buy_def sell_def consistent_def Let_def)
next
  case (Some p)
  with assms(1) have "0 < shares s" "p_quantity p = shares s" "p_entry_price p \<noteq> 0"
    by (simp_all add: consistent_def)
  with Some assms(2,3) show ?thesis
    by (simp add: process_bar_def check_stop_loss_def buy_def sell_def Let_def)
qed

lemma run_bars_returns:
  assumes "consistent cfg s" "\<forall>b \<in> set df. close b \<noteq> 0" "1 + tc cfg \<noteq> 0"
  shows "\<exists>s'. run_bars cfg s df = Inr s'"
  using assms
proof (induction df arbitrary: s)
  case Nil
  then show ?case by simp
next
  case (Cons row rows)
  from process_bar_returns[of cfg s row] Cons.prems
  obtain s1 where a: "process_bar cfg s row = Inr s1" by auto
  have "consistent cfg s1"
    using process_bar_consistent[OF a Cons.prems(1)] .
  from Cons.IH[OF this] Cons.prems obtain s' where "run_bars cfg s1 rows = Inr s'" by auto
  with a show ?case by simp
qed

text \<open>
  The closing block: it changes neither the share count, nor the open position, nor the
  equity curve; when shares are held it appends the \<open>end_of_period\<close> trade at the last
  close and credits the cash.
\<close>

lemma close_open_position_keeps_shares:
  assumes "close_open_position cfg df s = Inr s'"
  shows "shares s' = shares s \<and> current_position s' = current_position s \<and>
         portfolio_values s' = portfolio_values s"
  using assms
  by (auto simp: close_open_position_def Let_def split: if_splits list.splits option.splits)

lemma end_of_period_trade:
  assumes "run_bars cfg (init_state initial_capital) df = Inr s" and "0 < shares s"
  shows "\<exists>s' t. close_open_position cfg df s = Inr s' \<and>
           trades s' = trades s @ [t] \<and>
           exit_reason t = ''end_of_period'' \<and>
           exit_price t = close (last df) \<and> exit_date t = time (last df) \<and>
           quantity t = shares s \<and>
           cash s' = cash s + real_of_int (shares s) * close (last df) * (1 - tc cfg)"
proof -
  have c: "consistent cfg s"
    using run_bars_consistent[OF assms(1) consistent_init] .
  with assms(2) obtain p where p: "current_position s = Some p"
    by (cases "current_position s") (simp_all add: consistent_def)
  have "df \<noteq> []"
    using assms by (auto simp: init_state_def)
  then obtain b bs where df: "df = b # bs" by (cases df) auto
  show ?thesis
    using p assms(2) unfolding df
    by (simp add: close_open_position_def Let_def del: last.simps)
qed

section \<open>Evaluation on the sample inputs\<close>

lemmas strat_defs = generate_signals_def ma_crossover_strategy_def get_param_def sma_def
  as_window_def rolling_mean_def closes_def with_signals_def diff_def fl_gt_def fl_sub_def

lemma scenario_data: "load_ohlcv scenario_db 7 1 5 = scenario_rows"
  by (simp add: load_ohlcv_def scenario_db_def scenario_rows_def)

lemma scenario_signals:
  "generate_signals (strategy_type scenario_strategy) (parameters scenario_strategy)
     scenario_rows = Inr scenario_bars"
  by (simp add: strat_defs scenario_strategy_def scenario_rows_def scenario_bars_def
      upt_rec[of 0] upt_rec[of 1] upt_rec[of 2] upt_rec[of 3] upt_rec[of 4])

lemma scenario_risk:
  "risk_config 0 (case risk_params scenario_strategy of None \<Rightarrow> Map.empty | Some rp \<Rightarrow> rp) =
     \<lparr> tc = 0, position_size = 1, stop_loss = 0 \<rparr>"
  by (simp add: risk_config_def scenario_strategy_def)

lemma scenario_state:
  "simulate_state \<lparr> tc = 0, position_size = 1, stop_loss = 0 \<rparr> 1000 scenario_bars =
   Inr \<lparr> cash = 1009, shares = 9,
         current_position =
           Some \<lparr>p_entry_date = 4, p_entry_price = 101, p_quantity = 9,
                 p_transaction_cost = 0\<rparr>,
         trades = scenario_trades,
         portfolio_values = scenario_points \<rparr>"
  by (simp add: sim_defs scenario_bars_def scenario_trades_def scenario_points_def)

lemma scenario_portfolio:
  "simulate_trading \<lparr> tc = 0, position_size = 1, stop_loss = 0 \<rparr> scenario_bars 1000 =
   Inr (\<lparr> pf_points = scenario_points,
          pf_cummax = [1000, 1000, 1000, 1000, 1009],
          pf_drawdown = [Fin 0, Fin 0, Fin (- (27 / 1000)), Fin (- (27 / 1000)), Fin 0] \<rparr>,
        scenario_trades)"
  by (simp add: simulate_trading_def scenario_state cummax_def)
     (simp add: scenario_points_def)

lemma scenario_metrics:
  "\<exists>m. calculate_metrics
         \<lparr> pf_points = scenario_points,
           pf_cummax = [1000, 1000, 1000, 1000, 1009],
           pf_drawdown = [Fin 0, Fin 0, Fin (- (27 / 1000)), Fin (- (27 / 1000)), Fin 0] \<rparr>
         1000 = Inr m \<and>
       final_value m = 1009 \<and> total_return m = Fin (9 / 1000)"
  by (simp add: calculate_metrics_def Let_def scenario_points_def)

lemma scenario_run:
  "\<not> isl scenario_result \<and>
   r_trades (projr scenario_result) = scenario_trades \<and>
   map (\<lambda>(t, v, d). v) (r_equity_curve (projr scenario_result)) =
     [1000, 1000, 973, 973, 1009] \<and>
   final_value (r_metrics (projr scenario_result)) = 1009 \<and>
   total_return (r_metrics (projr scenario_result)) = Fin (9 / 1000)"
proof -
  from scenario_metrics obtain m where
    m: "calculate_metrics
         \<lparr> pf_points = scenario_points,
           pf_cummax = [1000, 1000, 1000, 1000, 1009],
           pf_drawdown = [Fin 0, Fin 0, Fin (- (27 / 1000)), Fin (- (27 / 1000)), Fin 0] \<rparr>
         1000 = Inr m"
    and fv: "final_value m = 1009" and tr: "total_return m = Fin (9 / 1000)"
    by blast
  have s: "db_strategies scenario_db 1 = Some scenario_strategy"
    and k: "db_stocks scenario_db ''ACME'' = Some 7"
    by (simp_all add: scenario_db_def)
  have ne: "scenario_rows \<noteq> []" by (simp add: scenario_rows_def)
  have R: "scenario_result =
      Inr \<lparr> r_metrics = update_metrics m (calculate_trade_stats scenario_trades),
            r_benchmark_return = calculate_benchmark_return 1 5,
            r_alpha = fl_sub (total_return (update_metrics m (calculate_trade_stats scenario_trades)))
                        (Fin (calculate_benchmark_return 1 5)),
            r_trades = scenario_trades,
            r_equity_curve =
              zip (map ep_time scenario_points)
                (zip (map ep_total scenario_points)
                   [Fin 0, Fin 0, Fin (- (27 / 1000)), Fin (- (27 / 1000)), Fin 0]) \<rparr>"
    by (simp add: scenario_result_def run_backtest_def s k scenario_data ne scenario_signals
        scenario_risk scenario_portfolio m Let_def)
  show ?thesis
    unfolding R by (simp add: update_metrics_def fv tr scenario_points_def)
qed

text \<open>
  Claim C3, as the code runs the scenario: closes 100, 102, 99, 101, 105 under
  \<open>ma_crossover\<close> with windows 1 and 2, capital 1000, position size 1, no stop loss, no
  transaction cost. The backtest returns a result with two trades: 9 shares bought at 102
  on bar 2 (the first bar whose short average exceeds the long one) and sold by signal at
  99 on bar 3; 9 shares bought at 101 on bar 4 and closed at 105 on bar 5 with
  \<open>exit_reason = 'end_of_period'\<close>. The equity curve ends at 1009 and the total return
  is 0.009.
\<close>

theorem scenario_two_buys:
  "\<not> isl scenario_result \<and>
   r_trades (projr scenario_result) = scenario_trades \<and>
   map entry_date (r_trades (projr scenario_result)) = [2, 4] \<and>
   map entry_price (r_trades (projr scenario_result)) = [102, 101] \<and>
   map quantity (r_trades (projr scenario_result)) = [9, 9] \<and>
   map exit_date (r_trades (projr scenario_result)) = [3, 5] \<and>
   map exit_reason (r_trades (projr scenario_result)) = [''signal'', ''end_of_period''] \<and>
   map (\<lambda>(t, v, d). v) (r_equity_curve (projr scenario_result)) =
     [1000, 1000, 973, 973, 1009] \<and>
   final_value (r_metrics (projr scenario_result)) = 1009 \<and>
   total_return (r_metrics (projr scenario_result)) = Fin (9 / 1000)"
  using scenario_run by (simp add: scenario_trades_def)

text \<open>
  Claim C3 as stated fails on this input: the run has two entries, on bars 2 and 4, and the
  final equity is not 1050.
\<close>

theorem scenario_one_buy_counterexample:
  "map entry_date (r_trades (projr scenario_result)) = [2, 4] \<and>
   final_value (r_metrics (projr scenario_result)) \<noteq> 1050"
  using scenario_run by (simp add: scenario_trades_def)

lemma sample_run: "run_bars sample_cfg (init_state 1000) sample_bars = Inr sample_state"
  by (simp add: sim_defs sample_cfg_def sample_bars_def sample_state_def)

text \<open>Claim C7 on the two-bar run, at its second bar.\<close>

theorem equity_point_consistent_witness:
  "run_bars sample_cfg (init_state 1000) sample_bars = Inr sample_state \<and>
   (1::nat) < length sample_bars \<and>
   length (portfolio_values sample_state) = length sample_bars \<and>
   (\<exists>si. run_bars sample_cfg (init_state 1000) (take (Suc 1) sample_bars) = Inr si \<and>
      ep_cash (portfolio_values sample_state ! 1) = cash si \<and>
      ep_holdings (portfolio_values sample_state ! 1) =
        real_of_int (shares si) * close (sample_bars ! 1) \<and>
      ep_total (portfolio_values sample_state ! 1) =
        ep_cash (portfolio_values sample_state ! 1) +
        ep_holdings (portfolio_values sample_state ! 1))"
proof -
  have h: "(1::nat) < length sample_bars" by (simp add: sample_bars_def)
  from equity_point_consistent[OF sample_run h] sample_run h show ?thesis by blast
qed




lemma cost_run: "run_bars cost_cfg (init_state 1000) stop_bars = Inr cost_state"
  by (simp add: sim_defs cost_cfg_def stop_bars_def cost_state_def)

text \<open>Claim C10 on a run that buys 9 shares at 100 with a cost rate of one percent.\<close>

theorem end_of_period_pnl_omits_exit_cost_witness:
  "0 < tc cost_cfg \<and>
   run_bars cost_cfg (init_state 1000) stop_bars = Inr cost_state \<and>
   0 < shares cost_state \<and>
   (\<exists>p t s'. current_position cost_state = Some p \<and>
      close_open_position cost_cfg stop_bars cost_state = Inr s' \<and>
      trades s' = trades cost_state @ [t] \<and>
      exit_reason t = ''end_of_period'' \<and>
      exit_price t = close (last stop_bars) \<and>
      transaction_cost t = real_of_int (p_quantity p) * p_entry_price p * tc cost_cfg \<and>
      pnl t = (real_of_int (shares cost_state) * close (last stop_bars) -
               real_of_int (p_quantity p) * p_entry_price p) -
              real_of_int (p_quantity p) * p_entry_price p * tc cost_cfg \<and>
      cash s' - cash cost_state =
        real_of_int (shares cost_state) * close (last stop_bars) * (1 - tc cost_cfg) \<and>
      pnl t - ((cash s' - cash cost_state) -
               real_of_int (p_quantity p) * p_entry_price p * (1 + tc cost_cfg)) =
        real_of_int (shares cost_state) * close (last stop_bars) * tc cost_cfg)"
proof -
  have h1: "0 < tc cost_cfg" by (simp add: cost_cfg_def)
  have h3: "0 < shares cost_state" by (simp add: cost_state_def)
  from end_of_period_pnl_omits_exit_cost[OF h1 cost_run h3] h1 cost_run h3
  show ?thesis by blast
qed

text \<open>
  Claim C1, evaluated: capital 1000, two bars closing at 100 and 102, a buy signal on the
  second. The closing block appends the \<open>end_of_period\<close> trade at the last close and
  adds the proceeds to \<open>cash\<close>, and the function reaches its return with
  \<open>shares = 9\<close> and \<open>current_position\<close> still set; the last equity point keeps
  the holdings of 918.
\<close>

theorem end_of_period_keeps_shares:
  "simulate_state sample_cfg 1000 sample_bars =
     Inr \<lparr> cash = 1000, shares = 9,
           current_position =
             Some \<lparr> p_entry_date = 2, p_entry_price = 102, p_quantity = 9,
                    p_transaction_cost = 0 \<rparr>,
           trades =
             [\<lparr> trade_type = ''BUY'', entry_date = 2, entry_price = 102,
                exit_date = 2, exit_price = 102, quantity = 9,
                transaction_cost = 0, pnl = 0, pnl_percentage = Fin 0,
                hold_period_days = 0, exit_reason = ''end_of_period'' \<rparr>],
           portfolio_values =
             [\<lparr> ep_time = 1, ep_cash = 1000, ep_holdings = 0, ep_total = 1000 \<rparr>,
              \<lparr> ep_time = 2, ep_cash = 82, ep_holdings = 918, ep_total = 1000 \<rparr>] \<rparr>"
  by (simp add: sim_defs sample_cfg_def sample_bars_def)

section \<open>Properties of the metrics\<close>

lemma calculate_metrics_sharpe:
  assumes "pf_points pf \<noteq> []"
  shows "\<exists>m. calculate_metrics pf c = Inr m \<and>
           sharpe_ratio m =
             (if fl_gt (series_std (pct_change (map ep_total (pf_points pf)))) (Fin 0)
              then fl_mul (fl_div (series_mean (pct_change (map ep_total (pf_points pf))))
                             (series_std (pct_change (map ep_total (pf_points pf)))))
                     (Fin (sqrt 252))
              else Fin 0)"
  using assms by (simp add: calculate_metrics_def Let_def)

lemma no_losers_profit_factor:
  assumes "filter (\<lambda>t. pnl t < 0) ts = []"
  shows "ts_profit_factor (calculate_trade_stats ts) = 0"
  using assms by (simp add: calculate_trade_stats_def Let_def)

text \<open>
  Claim C8. On a non-empty equity curve whose per-bar returns have standard deviation 0 or
  NaN, \<open>_calculate_metrics\<close> returns with \<open>sharpe_ratio = 0\<close>. With no losing trade,
  \<open>_calculate_trade_stats\<close> gives \<open>profit_factor = 0\<close>. On the empty trade list it
  gives 0 for every statistic, and so does the metrics dictionary after the update.
\<close>

theorem degenerate_metrics_are_zero:
  "(pf_points pf \<noteq> [] \<and>
      (series_std (pct_change (map ep_total (pf_points pf))) = Fin 0 \<or>
       series_std (pct_change (map ep_total (pf_points pf))) = NaN) \<longrightarrow>
      (\<exists>m. calculate_metrics pf initial_capital = Inr m \<and> sharpe_ratio m = Fin 0)) \<and>
   (filter (\<lambda>t. pnl t < 0) ts = [] \<longrightarrow>
      ts_losing_trades (calculate_trade_stats ts) = 0 \<and>
      ts_profit_factor (calculate_trade_stats ts) = 0) \<and>
   calculate_trade_stats [] =
     \<lparr> ts_total_trades = 0, ts_winning_trades = 0, ts_losing_trades = 0,
       ts_win_rate = 0, ts_avg_win = 0, ts_avg_loss = 0, ts_profit_factor = 0 \<rparr> \<and>
   total_trades (update_metrics m0 (calculate_trade_stats [])) = 0 \<and>
   winning_trades (update_metrics m0 (calculate_trade_stats [])) = 0 \<and>
   losing_trades (update_metrics m0 (calculate_trade_stats [])) = 0 \<and>
   win_rate (update_metrics m0 (calculate_trade_stats [])) = 0 \<and>
   avg_win (update_metrics m0 (calculate_trade_stats [])) = 0 \<and>
   avg_loss (update_metrics m0 (calculate_trade_stats [])) = 0 \<and>
   profit_factor (update_metrics m0 (calculate_trade_stats [])) = 0"
proof -
  have a: "pf_points pf \<noteq> [] \<and>
      (series_std (pct_change (map ep_total (pf_points pf))) = Fin 0 \<or>
       series_std (pct_change (map ep_total (pf_points pf))) = NaN) \<longrightarrow>
      (\<exists>m. calculate_metrics pf initial_capital = Inr m \<and> sharpe_ratio m = Fin 0)"
  proof
    assume h: "pf_points pf \<noteq> [] \<and>
      (series_std (pct_change (map ep_total (pf_points pf))) = Fin 0 \<or>
       series_std (pct_change (map ep_total (pf_points pf))) = NaN)"
    then have "\<not> fl_gt (series_std (pct_change (map ep_total (pf_points pf)))) (Fin 0)"
      by (auto simp: fl_gt_def)
    with calculate_metrics_sharpe[of pf initial_capital] h
    show "\<exists>m. calculate_metrics pf initial_capital = Inr m \<and> sharpe_ratio m = Fin 0"
      by auto
  qed
  have b: "filter (\<lambda>t. pnl t < 0) ts = [] \<longrightarrow>
      ts_losing_trades (calculate_trade_stats ts) = 0 \<and>
      ts_profit_factor (calculate_trade_stats ts) = 0"
    by (simp add: calculate_trade_stats_def Let_def)
  have c: "calculate_trade_stats [] =
     \<lparr> ts_total_trades = 0, ts_winning_trades = 0, ts_losing_trades = 0,
       ts_win_rate = 0, ts_avg_win = 0, ts_avg_loss = 0, ts_profit_factor = 0 \<rparr>"
    by (simp add: calculate_trade_stats_def)
  show ?thesis
    using a b c by (simp add: update_metrics_def)
qed

lemma flat_std: "series_std (pct_change (map ep_total (pf_points flat_portfolio))) = Fin 0"
  by (simp add: flat_portfolio_def pct_change_def series_std_def dropna_def fl_sub_def Let_def)

text \<open>Claim C8 on a flat three-point curve and a single winning trade.\<close>

theorem degenerate_metrics_are_zero_witness:
  "pf_points flat_portfolio \<noteq> [] \<and>
   series_std (pct_change (map ep_total (pf_points flat_portfolio))) = Fin 0 \<and>
   (\<exists>m. calculate_metrics flat_portfolio 1000 = Inr m \<and> sharpe_ratio m = Fin 0) \<and>
   filter (\<lambda>t. pnl t < 0) winning_trades_only = [] \<and>
   ts_profit_factor (calculate_trade_stats winning_trades_only) = 0"
proof -
  have h1: "pf_points flat_portfolio \<noteq> []" by (simp add: flat_portfolio_def)
  have h2: "filter (\<lambda>t. pnl t < 0) winning_trades_only = []"
    by (simp add: winning_trades_only_def)
  from degenerate_metrics_are_zero[of flat_portfolio 1000 winning_trades_only] h1 flat_std h2
  show ?thesis by simp
qed

section \<open>Properties of the rsi indicator and strategy\<close>

lemma length_rolling_mean: "length (rolling_mean w xs) = length xs"
  by (simp add: rolling_mean_def)

lemma length_diff: "length (diff xs) = length xs"
  by (cases xs) (simp_all add: diff_def)

lemma length_with_signals:
  "length (with_signals data pos) = min (length data) (length pos)"
  by (simp add: with_signals_def length_diff)

lemma with_signals_nth:
  assumes "i < length data" "i < length pos"
  shows "with_signals data pos ! i =
           \<lparr> time = o_time (data ! i), close = o_close (data ! i), position = pos ! i,
             signal = diff (map (\<lambda>p. Fin (real_of_int p)) pos) ! i \<rparr>"
  using assms by (simp add: with_signals_def length_diff)

lemma with_signals_position:
  assumes "b \<in> set (with_signals data pos)"
  shows "position b \<in> set pos"
proof -
  from assms obtain i where i: "i < length (with_signals data pos)" and b: "b = with_signals data pos ! i"
    by (auto simp: in_set_conv_nth)
  then have "i < length data" "i < length pos" by (simp_all add: length_with_signals)
  with b show ?thesis by (simp add: with_signals_nth)
qed

lemma with_signals_close:
  assumes "b \<in> set (with_signals data pos)"
  shows "\<exists>r \<in> set data. close b = o_close r"
proof -
  from assms obtain i where i: "i < length (with_signals data pos)" and b: "b = with_signals data pos ! i"
    by (auto simp: in_set_conv_nth)
  then have "i < length data" "i < length pos" by (simp_all add: length_with_signals)
  with b show ?thesis by (auto simp: with_signals_nth)
qed

lemma closes_constant:
  "\<forall>r \<in> set data. o_close r = c \<Longrightarrow> closes data = replicate (length data) (Fin c)"
  by (induction data) (simp_all add: closes_def)

lemma map2_replicate_shift:
  "map2 f (v # replicate m v) (replicate m v) = replicate m (f v v)"
  by (induction m) simp_all

lemma diff_replicate:
  "diff (replicate (Suc m) (Fin c)) = NaN # replicate m (Fin 0)"
  by (simp add: diff_def map2_replicate_shift fl_sub_def)

lemma gain_constant:
  "gain w (replicate n (Fin c)) = rolling_mean w (replicate n (Fin 0))"
proof (cases n)
  case 0
  then show ?thesis by (simp add: gain_def diff_def where_or_zero_def)
next
  case (Suc m)
  have "where_or_zero (\<lambda>d. fl_gt d (Fin 0)) (NaN # replicate m (Fin 0)) =
        Fin 0 # replicate m (Fin 0)"
    by (simp add: where_or_zero_def fl_gt_def)
  then show ?thesis
    unfolding Suc gain_def diff_replicate by simp
qed

lemma loss_constant:
  "loss w (replicate n (Fin c)) = rolling_mean w (replicate n (Fin 0))"
proof (cases n)
  case 0
  then show ?thesis by (simp add: loss_def diff_def where_or_zero_def)
next
  case (Suc m)
  have "map fl_neg (where_or_zero (\<lambda>d. fl_lt d (Fin 0)) (NaN # replicate m (Fin 0))) =
        Fin 0 # replicate m (Fin 0)"
    by (simp add: where_or_zero_def)
  then show ?thesis
    unfolding Suc loss_def diff_replicate by simp
qed

lemma foldl_add_zeros: "foldl fl_add (Fin 0) (replicate k (Fin 0)) = Fin 0"
  by (induction k) simp_all

lemma rolling_mean_zeros:
  assumes "i < n"
  shows "rolling_mean w (replicate n (Fin 0)) ! i = (if w = 0 \<or> Suc i < w then NaN else Fin 0)"
  using assms by (simp add: rolling_mean_def Let_def foldl_add_zeros)

lemma rsi_constant:
  assumes "as_window period = Inr w"
  shows "rsi (replicate n (Fin c)) period = Inr (replicate n NaN)"
proof -
  have "map (\<lambda>r. fl_sub (Fin 100) (fl_div (Fin 100) (fl_add (Fin 1) r)))
          (map2 fl_div (rolling_mean w (replicate n (Fin 0)))
                       (rolling_mean w (replicate n (Fin 0)))) = replicate n NaN"
    by (rule nth_equalityI)
       (simp_all add: length_rolling_mean rolling_mean_zeros fl_sub_def)
  then show ?thesis
    using assms by (simp add: rsi_def gain_constant loss_constant)
qed

lemma rsi_position_NaN: "rsi_position oversold overbought NaN = 0"
  by (simp add: rsi_position_def fl_gt_def)

lemma rsi_strategy_constant:
  assumes "\<forall>r \<in> set data. o_close r = c"
    and "as_window (get_param ps ''period'' 14) = Inr w"
  shows "rsi_strategy ps data = Inr (with_signals data (replicate (length data) 0))"
  using rsi_constant[OF assms(2)] closes_constant[OF assms(1)]
  by (simp add: rsi_strategy_def Let_def rsi_position_NaN)

lemma rsi_hundred:
  assumes "as_window period = Inr w" and "i < length xs"
    and "gain w xs ! i = Fin g" and "0 < g" and "loss w xs ! i = Fin 0"
  shows "\<exists>col. rsi xs period = Inr col \<and> col ! i = Fin 100"
proof -
  have l: "length (gain w xs) = length xs" "length (loss w xs) = length xs"
    by (simp_all add: gain_def loss_def length_rolling_mean length_diff where_or_zero_def)
  show ?thesis
    using assms l by (simp add: rsi_def fl_sub_def)
qed

text \<open>
  Claim C9. On a constant close column, with a period that \<open>rolling\<close> accepts, \<open>rsi\<close> is
  NaN at every bar and the rsi strategy returns, without an error, one row per bar with
  \<open>position = 0\<close>. At any bar where the rolling average of losses is 0 and that of gains
  is positive, \<open>rsi\<close> is 100.
\<close>

theorem rsi_degenerate_cases:
  "((\<forall>r \<in> set data. o_close r = c) \<and> as_window (get_param ps ''period'' 14) = Inr w \<longrightarrow>
      rsi (closes data) (get_param ps ''period'' 14) = Inr (replicate (length data) NaN) \<and>
      (\<exists>bars. rsi_strategy ps data = Inr bars \<and> length bars = length data \<and>
         (\<forall>b \<in> set bars. position b = 0))) \<and>
   (as_window period = Inr w' \<and> i < length xs \<and>
      gain w' xs ! i = Fin g \<and> 0 < g \<and> loss w' xs ! i = Fin 0 \<longrightarrow>
      (\<exists>col. rsi xs period = Inr col \<and> col ! i = Fin 100))"
proof (intro conjI impI)
  assume h: "(\<forall>r \<in> set data. o_close r = c) \<and> as_window (get_param ps ''period'' 14) = Inr w"
  then show "rsi (closes data) (get_param ps ''period'' 14) = Inr (replicate (length data) NaN)"
    using rsi_constant closes_constant by metis
  from h have "rsi_strategy ps data = Inr (with_signals data (replicate (length data) 0))"
    using rsi_strategy_constant by blast
  moreover have "length (with_signals data (replicate (length data) 0)) = length data"
    by (simp add: length_with_signals)
  moreover have "\<forall>b \<in> set (with_signals data (replicate (length data) 0)). position b = 0"
    using with_signals_position by fastforce
  ultimately show "\<exists>bars. rsi_strategy ps data = Inr bars \<and> length bars = length data \<and>
         (\<forall>b \<in> set bars. position b = 0)"
    by blast
next
  assume "as_window period = Inr w' \<and> i < length xs \<and>
      gain w' xs ! i = Fin g \<and> 0 < g \<and> loss w' xs ! i = Fin 0"
  then show "\<exists>col. rsi xs period = Inr col \<and> col ! i = Fin 100"
    using rsi_hundred by blast
qed

lemmas upt3 = upt_rec[of 0] upt_rec[of 1] upt_rec[of 2] upt_rec[of 3]

lemmas rsi_defs = rsi_def gain_def loss_def diff_def where_or_zero_def rolling_mean_def
  as_window_def fl_gt_def fl_sub_def Let_def

text \<open>
  Claim C9 on three bars closing at 5 with period 2, and on closes 1, 2, 3 at the last bar.
\<close>

theorem rsi_degenerate_cases_witness:
  "list_all (\<lambda>r. o_close r = 5) constant_rows \<and>
   as_window (get_param [''period'' \<mapsto> 2] ''period'' 14) = Inr 2 \<and>
   rsi (closes constant_rows) (get_param [''period'' \<mapsto> 2] ''period'' 14) =
     Inr (replicate (length constant_rows) NaN) \<and>
   (\<exists>bars. rsi_strategy [''period'' \<mapsto> 2] constant_rows = Inr bars \<and>
      length bars = length constant_rows \<and> list_all (\<lambda>b. position b = 0) bars) \<and>
   as_window 2 = Inr 2 \<and> (2::nat) < length rising_closes \<and>
   gain 2 rising_closes ! 2 = Fin 1 \<and> (0::real) < 1 \<and> loss 2 rising_closes ! 2 = Fin 0 \<and>
   (\<exists>col. rsi rising_closes 2 = Inr col \<and> col ! 2 = Fin 100)"
proof -
  have h1: "\<forall>r \<in> set constant_rows. o_close r = 5" by (simp add: constant_rows_def)
  have h1': "list_all (\<lambda>r. o_close r = 5) constant_rows" by (simp add: constant_rows_def)
  have h2: "as_window (get_param [''period'' \<mapsto> 2] ''period'' 14) = Inr 2"
    by (simp add: as_window_def get_param_def)
  have h3: "as_window 2 = Inr 2" by (simp add: as_window_def)
  have h4: "(2::nat) < length rising_closes" by (simp add: rising_closes_def)
  have h5: "gain 2 rising_closes ! 2 = Fin 1"
    by (simp add: gain_def diff_def where_or_zero_def rolling_mean_def fl_gt_def fl_sub_def
        Let_def rising_closes_def upt3)
  have h6: "loss 2 rising_closes ! 2 = Fin 0"
    by (simp add: loss_def diff_def where_or_zero_def rolling_mean_def fl_gt_def fl_sub_def
        Let_def rising_closes_def upt3)
  from rsi_degenerate_cases[of constant_rows 5 "[''period'' \<mapsto> 2]" 2 2 2 2 rising_closes 1]
    h1 h1' h2 h3 h4 h5 h6
  show ?thesis by (simp add: list_all_iff)
qed

text \<open>
  Claim C2, evaluated: closes 10, 8, 9 with period 2 and the default thresholds 30 and 70.
  The rsi column is NaN, 0, 33.3. The position is 1 on the second bar and 0 on the third,
  where rsi lies between the thresholds: the position of the previous bar does not
  persist, and the strategy signals a sell although rsi never exceeded \<open>overbought\<close>.
\<close>

theorem rsi_exits_below_overbought:
  "rsi (closes dip_rows) 2 = Inr [NaN, Fin 0, Fin (100 / 3)] \<and>
   rsi_strategy [''period'' \<mapsto> 2] dip_rows =
     Inr [\<lparr> time = 1, close = 10, position = 0, signal = NaN \<rparr>,
          \<lparr> time = 2, close = 8, position = 1, signal = Fin 1 \<rparr>,
          \<lparr> time = 3, close = 9, position = 0, signal = Fin (- 1) \<rparr>]"
  by (simp add: rsi_strategy_def rsi_position_def get_param_def with_signals_def rsi_defs
      closes_def dip_rows_def upt3)

text \<open>The position of a bar depends on the rsi of that bar alone.\<close>

lemma rsi_position_cases:
  "rsi_position oversold overbought r =
     (if fl_lt r (Fin oversold) \<and> \<not> fl_gt r (Fin overbought) then 1 else 0)"
  by (simp add: rsi_position_def)

section \<open>Non-positive capital\<close>

lemma py_int_nonpos: "x \<le> 0 \<Longrightarrow> py_int x \<le> 0"
  by (auto simp: py_int_def ceiling_le_zero)

lemma process_bar_no_fill:
  assumes "cash s \<le> 0" "shares s = 0" "current_position s = None"
    and "0 \<le> position_size cfg" "- 1 < tc cfg" "0 < close row"
  shows "process_bar cfg s row = Inr (record_value s row)"
proof -
  have chk: "check_stop_loss cfg s row = Inr (signal row)"
    using assms(3) by (simp add: check_stop_loss_def)
  have cps: "0 < close row * (1 + tc cfg)"
    using assms(5,6) by simp
  have "cash s * position_size cfg \<le> 0"
    using assms(1,4) by (simp add: mult_nonpos_nonneg)
  then have "cash s * position_size cfg / (close row * (1 + tc cfg)) \<le> 0"
    using cps by (simp add: divide_nonpos_pos)
  then have "\<not> 0 < py_int (cash s * position_size cfg / (close row * (1 + tc cfg)))"
    using py_int_nonpos by fastforce
  then have b: "buy cfg s row = Inr s"
    using assms(5,6) by (simp add: buy_def Let_def)
  show ?thesis
    using chk b assms(2) by (simp add: process_bar_def)
qed

lemma run_bars_no_fill:
  assumes "cash s \<le> 0" "shares s = 0" "current_position s = None"
    and "0 \<le> position_size cfg" "- 1 < tc cfg" "\<forall>b \<in> set df. 0 < close b"
  shows "run_bars cfg s df =
           Inr (s\<lparr> portfolio_values := portfolio_values s @ flat_points (cash s) df \<rparr>)"
  using assms
proof (induction df arbitrary: s)
  case Nil
  then show ?case by (simp add: flat_points_def)
next
  case (Cons row rows)
  have p: "process_bar cfg s row = Inr (record_value s row)"
    using process_bar_no_fill[of s cfg row] Cons.prems by simp
  have "run_bars cfg (record_value s row) rows =
          Inr ((record_value s row)\<lparr> portfolio_values :=
                 portfolio_values (record_value s row) @
                 flat_points (cash (record_value s row)) rows \<rparr>)"
    using Cons.prems by (intro Cons.IH) (simp_all add: record_value_def)
  then show ?case
    using p Cons.prems(2) by (simp add: record_value_def flat_points_def)
qed

lemma simulate_trading_no_fill:
  assumes "initial_capital \<le> 0" "0 \<le> position_size cfg" "- 1 < tc cfg"
    and "\<forall>b \<in> set df. 0 < close b" and "df \<noteq> []"
  shows "\<exists>pf. simulate_trading cfg df initial_capital = Inr (pf, []) \<and>
           pf_points pf = flat_points initial_capital df \<and>
           length (pf_drawdown pf) = length df"
proof -
  have r: "run_bars cfg (init_state initial_capital) df =
      Inr ((init_state initial_capital)\<lparr> portfolio_values := flat_points initial_capital df \<rparr>)"
    using run_bars_no_fill[of "init_state initial_capital" cfg df] assms
    by (simp add: init_state_def)
  have s: "simulate_state cfg initial_capital df =
      Inr ((init_state initial_capital)\<lparr> portfolio_values := flat_points initial_capital df \<rparr>)"
    unfolding simulate_state_def r by (simp add: close_open_position_def init_state_def)
  have l: "length (cummax xs) = length xs" for xs
  proof (cases xs)
    case Nil
    then show ?thesis by (simp add: cummax_def)
  next
    case (Cons x t)
    have "length (cummax_from m t) = length t" for m
      by (induction t arbitrary: m) simp_all
    then show ?thesis using Cons by (simp add: cummax_def)
  qed
  show ?thesis
    unfolding simulate_trading_def s
    using assms(5) by (simp add: init_state_def flat_points_def l Let_def)
qed

lemma sma_length: "sma xs window = Inr col \<Longrightarrow> length col = length xs"
  by (auto simp: sma_def length_rolling_mean split: sum.splits)

lemma rsi_length: "rsi xs period = Inr col \<Longrightarrow> length col = length xs"
  by (auto simp: rsi_def gain_def loss_def length_rolling_mean length_diff where_or_zero_def
      Let_def split: sum.splits)

lemma ewm_from_length: "length (ewm_from a y xs) = length xs"
  by (induction xs arbitrary: y) simp_all

lemma ema_length: "ema xs sp = Inr col \<Longrightarrow> length col = length xs"
  by (cases xs) (auto simp: ema_def ewm_from_length split: if_splits)

lemma macd_length:
  assumes "macd xs fast slow sg = Inr (macd_line, signal_line, hist)"
  shows "length macd_line = length xs \<and> length signal_line = length xs"
proof -
  from assms obtain ema_fast ema_slow where
    f: "ema xs fast = Inr ema_fast" and s: "ema xs slow = Inr ema_slow"
    and m: "macd_line = map2 (-) ema_fast ema_slow"
    and g: "ema macd_line sg = Inr signal_line"
    by (auto simp: macd_def Let_def split: sum.splits)
  from ema_length[OF f] ema_length[OF s] m have "length macd_line = length xs" by simp
  with ema_length[OF g] show ?thesis by simp
qed

lemma closes_length: "length (closes data) = length data"
  by (simp add: closes_def)

lemma generate_signals_shape:
  assumes "generate_signals stype ps data = Inr sg"
  shows "\<exists>pos. sg = with_signals data pos \<and> length pos = length data"
proof -
  consider (ma) "ma_crossover_strategy ps data = Inr sg"
    | (rsi) "rsi_strategy ps data = Inr sg"
    | (macd) "macd_strategy ps data = Inr sg"
    | (comb) "combined_strategy ps data = Inr sg"
    using assms by (auto simp: generate_signals_def split: if_splits)
  then show ?thesis
  proof cases
    case ma
    then show ?thesis
      by (auto simp: ma_crossover_strategy_def Let_def closes_length
          split: sum.splits dest!: sma_length)
  next
    case rsi
    then show ?thesis
      by (auto simp: rsi_strategy_def Let_def closes_length split: sum.splits dest!: rsi_length)
  next
    case macd
    then show ?thesis
      by (auto simp: macd_strategy_def Let_def split: sum.splits prod.splits dest!: macd_length)
  next
    case comb
    then show ?thesis
      by (auto simp: combined_strategy_def Let_def closes_length
          split: sum.splits prod.splits dest!: macd_length sma_length rsi_length)
  qed
qed

lemma generate_signals_length:
  "generate_signals stype ps data = Inr sg \<Longrightarrow> length sg = length data"
  using generate_signals_shape length_with_signals by fastforce

lemma generate_signals_close:
  "generate_signals stype ps data = Inr sg \<Longrightarrow> b \<in> set sg \<Longrightarrow>
     \<exists>r \<in> set data. close b = o_close r"
  using generate_signals_shape with_signals_close by blast

lemma load_ohlcv_subset: "set (load_ohlcv db stock a b) \<subseteq> set (db_ohlcv db)"
  by (auto simp: load_ohlcv_def)

lemma run_backtest_non_positive:
  assumes "initial_capital \<le> 0"
    and "db_strategies db strategy_id = Some strat"
    and "db_stocks db stock_symbol = Some stock"
    and "load_ohlcv db stock start_date end_date \<noteq> []"
    and "\<forall>r \<in> set (db_ohlcv db). 0 < o_close r"
    and "generate_signals (strategy_type strat) (parameters strat)
           (load_ohlcv db stock start_date end_date) = Inr signals_df"
    and "- 1 < c"
    and "0 \<le> position_size
           (risk_config c (case risk_params strat of None \<Rightarrow> Map.empty | Some rp \<Rightarrow> rp))"
  shows "\<exists>r. run_backtest db c strategy_id stock_symbol start_date end_date initial_capital = Inr r \<and>
           r_trades r = [] \<and>
           total_trades (r_metrics r) = 0 \<and>
           final_value (r_metrics r) = initial_capital \<and>
           length (r_equity_curve r) = length (load_ohlcv db stock start_date end_date) \<and>
           list_all (\<lambda>e. fst (snd e) = initial_capital) (r_equity_curve r)"
proof -
  define data where "data = load_ohlcv db stock start_date end_date"
  define cfg where
    "cfg = risk_config c (case risk_params strat of None \<Rightarrow> Map.empty | Some rp \<Rightarrow> rp)"
  have sg: "generate_signals (strategy_type strat) (parameters strat) data = Inr signals_df"
    using assms(6) by (simp add: data_def)
  have len: "length signals_df = length data"
    using generate_signals_length[OF sg] .
  have ne: "signals_df \<noteq> []"
    using len assms(4) by (auto simp: data_def)
  have pos: "\<forall>b \<in> set signals_df. 0 < close b"
  proof
    fix b assume "b \<in> set signals_df"
    from generate_signals_close[OF sg this] obtain r where
      "r \<in> set data" "close b = o_close r" by blast
    then show "0 < close b"
      using assms(5) load_ohlcv_subset[of db stock start_date end_date]
      by (auto simp: data_def)
  qed
  have tcv: "tc cfg = c" by (simp add: cfg_def risk_config_def)
  from simulate_trading_no_fill[of initial_capital cfg signals_df] assms(1,7,8) pos ne tcv
  obtain pf where
    st: "simulate_trading cfg signals_df initial_capital = Inr (pf, [])"
    and pts: "pf_points pf = flat_points initial_capital signals_df"
    and dl: "length (pf_drawdown pf) = length signals_df"
    by (auto simp: cfg_def)
  have tot: "map ep_total (pf_points pf) = replicate (length signals_df) initial_capital"
    by (simp add: pts flat_points_def map_replicate_const comp_def)
  have tne: "map ep_total (pf_points pf) \<noteq> []"
    using ne by (simp add: pts flat_points_def)
  obtain m where cm: "calculate_metrics pf initial_capital = Inr m"
    and fv: "final_value m = last (map ep_total (pf_points pf))"
    using tne by (auto simp: calculate_metrics_def Let_def)
  have fv': "final_value m = initial_capital"
    using fv tot ne by simp
  have run: "run_backtest db c strategy_id stock_symbol start_date end_date initial_capital =
      Inr \<lparr> r_metrics = update_metrics m (calculate_trade_stats []),
            r_benchmark_return = calculate_benchmark_return start_date end_date,
            r_alpha = fl_sub (total_return (update_metrics m (calculate_trade_stats [])))
                        (Fin (calculate_benchmark_return start_date end_date)),
            r_trades = [],
            r_equity_curve =
              zip (map ep_time (pf_points pf))
                (zip (map ep_total (pf_points pf)) (pf_drawdown pf)) \<rparr>"
    using assms(2,3,4) sg st cm
    by (simp add: run_backtest_def Let_def data_def[symmetric] cfg_def[symmetric])
  have el: "length (zip (map ep_time (pf_points pf))
                (zip (map ep_total (pf_points pf)) (pf_drawdown pf))) = length data"
    using dl len by (simp add: pts flat_points_def)
  have ev: "list_all (\<lambda>e. fst (snd e) = initial_capital)
              (zip (map ep_time (pf_points pf))
                 (zip (map ep_total (pf_points pf)) (pf_drawdown pf)))"
    unfolding tot list_all_iff
    by (auto simp: set_zip)
  show ?thesis
    unfolding run using el ev fv'
    by (simp add: update_metrics_def calculate_trade_stats_def data_def)
qed

text \<open>
  Claim C4, as the code has it. \<open>run_backtest\<close> makes no check of the capital. With a
  capital \<open>\<le> 0\<close>, a strategy and a stock that are found, a non-empty window of bars with
  positive closes, signals that are generated, a cost rate above \<open>-1\<close> and a position
  size \<open>\<ge> 0\<close>, the backtest returns a result: the simulation ran over every bar without
  a fill, there is no trade, and every equity point equals the initial capital.
\<close>

theorem non_positive_capital_is_simulated:
  assumes "initial_capital \<le> 0"
    and "db_strategies db strategy_id = Some strat"
    and "db_stocks db stock_symbol = Some stock"
    and "load_ohlcv db stock start_date end_date \<noteq> []"
    and "\<forall>r \<in> set (db_ohlcv db). 0 < o_close r"
    and "generate_signals (strategy_type strat) (parameters strat)
           (load_ohlcv db stock start_date end_date) = Inr signals_df"
    and "- 1 < c"
    and "0 \<le> position_size
           (risk_config c (case risk_params strat of None \<Rightarrow> Map.empty | Some rp \<Rightarrow> rp))"
  shows "\<exists>r. run_backtest db c strategy_id stock_symbol start_date end_date initial_capital = Inr r \<and>
           r_trades r = [] \<and>
           total_trades (r_metrics r) = 0 \<and>
           final_value (r_metrics r) = initial_capital \<and>
           length (r_equity_curve r) = length (load_ohlcv db stock start_date end_date) \<and>
           list_all (\<lambda>e. fst (snd e) = initial_capital) (r_equity_curve r)"
  using assms by (rule run_backtest_non_positive)

lemma scenario_db_facts:
  "db_strategies scenario_db 1 = Some scenario_strategy"
  "db_stocks scenario_db ''ACME'' = Some 7"
  "load_ohlcv scenario_db 7 1 5 \<noteq> []"
  "\<forall>r \<in> set (db_ohlcv scenario_db). 0 < o_close r"
  "generate_signals (strategy_type scenario_strategy) (parameters scenario_strategy)
     (load_ohlcv scenario_db 7 1 5) = Inr scenario_bars"
  "0 \<le> position_size
     (risk_config 0 (case risk_params scenario_strategy of None \<Rightarrow> Map.empty | Some rp \<Rightarrow> rp))"
  by (simp_all add: scenario_data scenario_signals scenario_risk)
     (simp_all add: scenario_db_def scenario_rows_def)

text \<open>Claim C4 on the five-bar scenario with a capital of \<open>-1000\<close>.\<close>

theorem non_positive_capital_is_simulated_witness:
  "(- 1000 :: real) \<le> 0 \<and>
   db_strategies scenario_db 1 = Some scenario_strategy \<and>
   db_stocks scenario_db ''ACME'' = Some 7 \<and>
   load_ohlcv scenario_db 7 1 5 \<noteq> [] \<and>
   list_all (\<lambda>r. 0 < o_close r) (db_ohlcv scenario_db) \<and>
   generate_signals (strategy_type scenario_strategy) (parameters scenario_strategy)
     (load_ohlcv scenario_db 7 1 5) = Inr scenario_bars \<and>
   (- 1 :: real) < 0 \<and>
   (\<exists>r. run_backtest scenario_db 0 1 ''ACME'' 1 5 (- 1000) = Inr r \<and>
      r_trades r = [] \<and>
      total_trades (r_metrics r) = 0 \<and>
      final_value (r_metrics r) = - 1000 \<and>
      length (r_equity_curve r) = length (load_ohlcv scenario_db 7 1 5) \<and>
      list_all (\<lambda>e. fst (snd e) = - 1000) (r_equity_curve r))"
proof -
  have h1: "(- 1000 :: real) \<le> 0" and h7: "(- 1 :: real) < 0" by simp_all
  from non_positive_capital_is_simulated[OF h1 scenario_db_facts(1-5) h7 scenario_db_facts(6)]
    scenario_db_facts
  show ?thesis by (simp add: list_all_iff)
qed

text \<open>
  Claim C4 as stated fails on this input: with a capital of \<open>-1000\<close> the backtest raises
  no error; it returns a result with an equity point for each of the five bars.
\<close>

theorem negative_capital_counterexample:
  "\<not> isl negative_capital_result \<and>
   r_trades (projr negative_capital_result) = [] \<and>
   length (r_equity_curve (projr negative_capital_result)) = 5 \<and>
   final_value (r_metrics (projr negative_capital_result)) = - 1000"
proof -
  have h1: "(- 1000 :: real) \<le> 0" and h7: "(- 1 :: real) < 0" by simp_all
  from run_backtest_non_positive[OF h1 scenario_db_facts(1-5) h7 scenario_db_facts(6)]
  obtain r where R: "negative_capital_result = Inr r" and t: "r_trades r = []"
    and f: "final_value (r_metrics r) = - 1000"
    and l: "length (r_equity_curve r) = length (load_ohlcv scenario_db 7 1 5)"
    unfolding negative_capital_result_def by blast
  show ?thesis
    unfolding R using t f l by (simp add: scenario_data scenario_rows_def)
qed

end
